theory Spec2Isabelle
  imports Main
begin

section \<open>Python values\<close>

text \<open>
  The agents exchange plain Python data: \<open>None\<close>, booleans, integers, floats, strings,
  lists and dictionaries with string keys. A dictionary is an association list in
  insertion order; a lookup takes the first entry of a key. Floats are an abstract
  type \<open>'f\<close>: their text form and their truth value are taken as parameters
  (\<open>float_ops\<close>). A string is a list of characters, one per code point below 256.
\<close>

datatype 'f pyval =
    PNone
  | PBool bool
  | PInt int
  | PFloat 'f
  | PStr string
  | PList "'f pyval list"
  | PDict "(string \<times> 'f pyval) list"

type_synonym 'f pydict = "(string \<times> 'f pyval) list"

record 'f float_ops =
  float_repr :: "'f \<Rightarrow> string"
  float_nonzero :: "'f \<Rightarrow> bool"

text \<open>\<open>key in d\<close>, \<open>d.get(key)\<close>, \<open>d.get(key, default)\<close> and \<open>d[key] = v\<close>.\<close>

definition dict_has :: "'f pydict \<Rightarrow> string \<Rightarrow> bool" where
  "dict_has d k = (map_of d k \<noteq> None)"

definition dict_get :: "'f pydict \<Rightarrow> string \<Rightarrow> 'f pyval" where
  "dict_get d k = (case map_of d k of None \<Rightarrow> PNone | Some v \<Rightarrow> v)"

definition dict_get_default :: "'f pydict \<Rightarrow> string \<Rightarrow> 'f pyval \<Rightarrow> 'f pyval" where
  "dict_get_default d k dflt = (case map_of d k of None \<Rightarrow> dflt | Some v \<Rightarrow> v)"

fun dict_set :: "'f pydict \<Rightarrow> string \<Rightarrow> 'f pyval \<Rightarrow> 'f pydict" where
  "dict_set [] k v = [(k, v)]"
| "dict_set ((k', v') # d) k v = (if k' = k then (k, v) # d else (k', v') # dict_set d k v)"

text \<open>\<open>isinstance(x, dict) and "error" in x\<close>: the structural test for an ErrorPayload.\<close>

fun is_error_payload :: "'f pyval \<Rightarrow> bool" where
  "is_error_payload (PDict d) = dict_has d ''error''"
| "is_error_payload _ = False"

definition error_payload :: "string \<Rightarrow> 'f pyval" where
  "error_payload msg = PDict [(''error'', PStr msg)]"

text \<open>\<open>type(x).__name__\<close>.\<close>

fun type_name :: "'f pyval \<Rightarrow> string" where
  "type_name PNone = ''NoneType''"
| "type_name (PBool _) = ''bool''"
| "type_name (PInt _) = ''int''"
| "type_name (PFloat _) = ''float''"
| "type_name (PStr _) = ''str''"
| "type_name (PList _) = ''list''"
| "type_name (PDict _) = ''dict''"

text \<open>\<open>str\<close> of an integer: decimal digits, with a minus sign when negative.\<close>

definition digit_char :: "nat \<Rightarrow> char" where
  "digit_char d = char_of (of_char (CHR ''0'') + d)"

fun str_nat :: "nat \<Rightarrow> string" where
  "str_nat n = (if n < 10 then [digit_char n] else str_nat (n div 10) @ [digit_char (n mod 10)])"

declare str_nat.simps [simp del]

definition str_int :: "int \<Rightarrow> string" where
  "str_int i = (if i < 0 then CHR ''-'' # str_nat (nat (- i)) else str_nat (nat i))"

section \<open>Exceptions\<close>

text \<open>
  A raised exception is a value: its class name and the text that \<open>str(e)\<close> gives.
  Only instances of \<open>Exception\<close> are modelled (what \<open>except Exception\<close> catches).
\<close>

datatype exn = Exn (exn_class: string) (exn_str: string)

datatype 'a result = Return 'a | Raise exn

fun is_return :: "'a result \<Rightarrow> bool" where
  "is_return (Return _) = True"
| "is_return (Raise _) = False"

section \<open>Connector registry\<close>

text \<open>
  A capability is a method of a connector object. It is called with keyword arguments,
  may read and change the world \<open>'w\<close> (the network, and anything else it touches), and
  returns a value or raises. A connector object has attributes by name: methods, and
  data attributes such as \<open>api_key\<close> and \<open>base_url\<close>, which are not callable.
\<close>

type_synonym ('f, 'w) capability = "'f pydict \<Rightarrow> 'w \<Rightarrow> 'f pyval result \<times> 'w"

datatype ('f, 'w) attr = Method "('f, 'w) capability" | Data "'f pyval"

type_synonym ('f, 'w) connector = "string \<Rightarrow> ('f, 'w) attr option"

record ('f, 'w) ExecutorAgent =
  tools :: "string \<Rightarrow> ('f, 'w) connector option"

text \<open>\<open>function(**parameters)\<close>: calling an attribute that is not callable raises TypeError.\<close>

fun call :: "('f, 'w) attr \<Rightarrow> ('f, 'w) capability" where
  "call (Method f) kwargs w = f kwargs w"
| "call (Data v) kwargs w =
     (Raise (Exn ''TypeError'' ([CHR 0x27] @ type_name v @ [CHR 0x27] @ '' object is not callable'')), w)"

text \<open>
  The attributes that the source of \<open>WeatherTool\<close> declares: two data attributes set by
  \<open>__init__\<close> (the key read from the environment, and the base URL) and three methods,
  whose bodies call the network and are parameters here. The names every Python object
  inherits are not listed.
\<close>

definition WeatherTool ::
  "'f pyval \<Rightarrow> ('f, 'w) capability \<Rightarrow> ('f, 'w) capability \<Rightarrow> ('f, 'w) capability
     \<Rightarrow> ('f, 'w) connector" where
  "WeatherTool api_key get_current_weather get_weather_forecast get_weather_by_coordinates =
     [''api_key'' \<mapsto> Data api_key,
      ''base_url'' \<mapsto> Data (PStr ''https://api.openweathermap.org/data/2.5''),
      ''get_current_weather'' \<mapsto> Method get_current_weather,
      ''get_weather_forecast'' \<mapsto> Method get_weather_forecast,
      ''get_weather_by_coordinates'' \<mapsto> Method get_weather_by_coordinates]"

text \<open>\<open>ExecutorAgent.__init__\<close>: the registry has exactly these four names.\<close>

definition ExecutorAgent_init ::
  "('f, 'w) connector \<Rightarrow> ('f, 'w) connector \<Rightarrow> ('f, 'w) connector \<Rightarrow> ('f, 'w) connector
     \<Rightarrow> ('f, 'w) ExecutorAgent" where
  "ExecutorAgent_init github weather news serp =
     \<lparr>tools = [''github'' \<mapsto> github, ''weather'' \<mapsto> weather, ''news'' \<mapsto> news, ''serp'' \<mapsto> serp]\<rparr>"

section \<open>Plans\<close>

text \<open>
  A plan that reaches the executor has passed \<open>_validate_plan\<close>: every field read below
  is present, so the defaults of \<open>.get\<close> are not reached. The fields have the types of
  the data model.
\<close>

record 'f step =
  step_number :: int
  action :: string
  tool :: string
  func :: string
  parameters :: "'f pydict"
  reasoning :: string

record 'f plan =
  task_understanding :: string
  required_tools :: "string list"
  steps :: "'f step list"
  expected_output :: string

record 'f step_record =
  sr_step_number :: int
  sr_action :: string
  sr_tool :: string
  sr_function :: string
  status :: string
  result :: "'f pyval"

record 'f error_entry =
  step :: int
  error :: "'f pyval"

record 'f execution_result =
  task :: string
  steps_executed :: "'f step_record list"
  errors :: "'f error_entry list"
  raw_data :: "'f pydict"
  final_data :: "'f pyval option"

section \<open>Step executor\<close>

text \<open>\<open>try: body  except Exception as e: return handler(e)\<close>.\<close>

definition try_except ::
  "('w \<Rightarrow> 'a result \<times> 'w) \<Rightarrow> (exn \<Rightarrow> 'a) \<Rightarrow> 'w \<Rightarrow> 'a result \<times> 'w" where
  "try_except body handler w =
     (case body w of
        (Raise e, w') \<Rightarrow> (Return (handler e), w')
      | (Return v, w') \<Rightarrow> (Return v, w'))"

text \<open>The body of the \<open>try\<close> block of \<open>execute_step\<close>: the call, and the one retry.\<close>

definition call_with_retry :: "('f, 'w) attr \<Rightarrow> ('f, 'w) capability" where
  "call_with_retry function kwargs w =
     (case call function kwargs w of
        (Raise e, w1) \<Rightarrow> (Raise e, w1)
      | (Return res, w1) \<Rightarrow>
          if is_error_payload res then call function kwargs w1
          else (Return res, w1))"

definition execute_step ::
  "('f, 'w) ExecutorAgent \<Rightarrow> 'f step \<Rightarrow> 'w \<Rightarrow> 'f pyval result \<times> 'w" where
  "execute_step self stp w =
     (let tool_name = tool stp;
          function_name = func stp;
          params = parameters stp
      in case tools self tool_name of
           None \<Rightarrow>
             (Return (error_payload (''Tool '' @ [CHR 0x27] @ tool_name @ [CHR 0x27] @ '' not found'')), w)
         | Some tool_obj \<Rightarrow>
             (case tool_obj function_name of
                None \<Rightarrow>
                  (Return (error_payload
                     (''Function '' @ [CHR 0x27] @ function_name @ [CHR 0x27] @ '' not found in tool ''
                        @ [CHR 0x27] @ tool_name @ [CHR 0x27])), w)
              | Some function \<Rightarrow>
                  try_except (call_with_retry function params)
                    (\<lambda>e. error_payload (''Execution failed: '' @ exn_str e)) w))"

section \<open>Plan executor\<close>

text \<open>The body of the loop of \<open>execute_plan\<close>, for one step and its outcome.\<close>

definition record_step ::
  "'f step \<Rightarrow> 'f pyval \<Rightarrow> 'f execution_result \<Rightarrow> 'f execution_result" where
  "record_step stp step_result results =
     (let results1 = results\<lparr>steps_executed := steps_executed results @
            [\<lparr>sr_step_number = step_number stp, sr_action = action stp, sr_tool = tool stp,
              sr_function = func stp,
              status = (if \<not> is_error_payload step_result then ''success'' else ''failed''),
              result = step_result\<rparr>]\<rparr>;
          step_key = ''step_'' @ str_int (step_number stp);
          results2 = results1\<lparr>raw_data := dict_set (raw_data results1) step_key step_result\<rparr>
      in case step_result of
           PDict d \<Rightarrow>
             if dict_has d ''error''
             then results2\<lparr>errors := errors results2 @
                    [\<lparr>step = step_number stp, error = dict_get d ''error''\<rparr>]\<rparr>
             else results2
         | _ \<Rightarrow> results2)"

fun run_steps ::
  "('f, 'w) ExecutorAgent \<Rightarrow> 'f step list \<Rightarrow> 'f execution_result \<Rightarrow> 'w
     \<Rightarrow> 'f execution_result result \<times> 'w" where
  "run_steps self [] results w = (Return results, w)"
| "run_steps self (stp # rest) results w =
     (case execute_step self stp w of
        (Raise e, w1) \<Rightarrow> (Raise e, w1)
      | (Return step_result, w1) \<Rightarrow> run_steps self rest (record_step stp step_result results) w1)"

definition execute_plan ::
  "('f, 'w) ExecutorAgent \<Rightarrow> 'f plan \<Rightarrow> 'w \<Rightarrow> 'f execution_result result \<times> 'w" where
  "execute_plan self pl w =
     (case run_steps self (steps pl)
             \<lparr>task = task_understanding pl, steps_executed = [], errors = [], raw_data = [],
              final_data = None\<rparr> w of
        (Raise e, w') \<Rightarrow> (Raise e, w')
      | (Return results, w') \<Rightarrow>
          (Return
             (if errors results = [] \<and> raw_data results \<noteq> [] \<and> steps pl \<noteq> []
              then results\<lparr>final_data :=
                     Some (dict_get (raw_data results)
                             (''step_'' @ str_int (step_number (last (steps pl)))))\<rparr>
              else results), w'))"

text \<open>
  What the loop is expected to produce, step by step: the outcomes of the steps, each
  run in the world its predecessors left (the list stops where a step raises), the key
  of a step in \<open>raw_data\<close>, the StepRecord of a step and its outcome, and the
  \<open>error\<close> entry of an outcome.
\<close>

fun outcomes :: "('f, 'w) ExecutorAgent \<Rightarrow> 'f step list \<Rightarrow> 'w \<Rightarrow> 'f pyval list" where
  "outcomes self [] w = []"
| "outcomes self (stp # rest) w =
     (case execute_step self stp w of
        (Raise e, w1) \<Rightarrow> []
      | (Return v, w1) \<Rightarrow> v # outcomes self rest w1)"

definition step_key :: "'f step \<Rightarrow> string" where
  "step_key stp = ''step_'' @ str_int (step_number stp)"

definition error_of :: "'f pyval \<Rightarrow> 'f pyval" where
  "error_of v = (case v of PDict d \<Rightarrow> dict_get d ''error'' | _ \<Rightarrow> PNone)"

definition mk_record :: "'f step \<Rightarrow> 'f pyval \<Rightarrow> 'f step_record" where
  "mk_record stp v =
     \<lparr>sr_step_number = step_number stp, sr_action = action stp, sr_tool = tool stp,
      sr_function = func stp,
      status = (if is_error_payload v then ''failed'' else ''success''),
      result = v\<rparr>"

section \<open>Rendering values as text\<close>

text \<open>
  \<open>repr\<close> of a string: single quotes, unless the string has a single quote and no
  double quote; the quote and the backslash are escaped, as are the characters that
  are not printable.
\<close>

definition hex_digit :: "nat \<Rightarrow> char" where
  "hex_digit d = (if d < 10 then char_of (48 + d) else char_of (87 + d))"

definition repr_char :: "char \<Rightarrow> char \<Rightarrow> string" where
  "repr_char quote c =
     (let n = (of_char c :: nat) in
      if c = quote \<or> c = CHR 0x5C then [CHR 0x5C, c]
      else if c = CHR 0x09 then [CHR 0x5C, CHR ''t'']
      else if c = CHR 0x0A then [CHR 0x5C, CHR ''n'']
      else if c = CHR 0x0D then [CHR 0x5C, CHR ''r'']
      else if n < 32 \<or> n = 127 \<or> (128 \<le> n \<and> n \<le> 160) \<or> n = 173
           then [CHR 0x5C, CHR ''x'', hex_digit (n div 16), hex_digit (n mod 16)]
      else [c])"

definition repr_str :: "string \<Rightarrow> string" where
  "repr_str s =
     (let quote = (if CHR 0x27 \<in> set s \<and> CHR 0x22 \<notin> set s then CHR 0x22 else CHR 0x27)
      in quote # concat (map (repr_char quote) s) @ [quote])"

text \<open>\<open>sep.join(xs)\<close>.\<close>

fun join :: "string \<Rightarrow> string list \<Rightarrow> string" where
  "join sep [] = []"
| "join sep [x] = x"
| "join sep (x # y # ys) = x @ sep @ join sep (y # ys)"

fun py_repr :: "'f float_ops \<Rightarrow> 'f pyval \<Rightarrow> string" where
  "py_repr fo PNone = ''None''"
| "py_repr fo (PBool b) = (if b then ''True'' else ''False'')"
| "py_repr fo (PInt i) = str_int i"
| "py_repr fo (PFloat x) = float_repr fo x"
| "py_repr fo (PStr s) = repr_str s"
| "py_repr fo (PList xs) = ''['' @ join '', '' (map (py_repr fo) xs) @ '']''"
| "py_repr fo (PDict d) =
     ''{'' @ join '', '' (map (\<lambda>kv. repr_str (fst kv) @ '': '' @ py_repr fo (snd kv)) d) @ ''}''"

text \<open>\<open>str(x)\<close>, which is also what an f-string field \<open>{x}\<close> renders.\<close>

fun py_str :: "'f float_ops \<Rightarrow> 'f pyval \<Rightarrow> string" where
  "py_str fo (PStr s) = s"
| "py_str fo v = py_repr fo v"

text \<open>\<open>bool(x)\<close>.\<close>

fun truthy :: "'f float_ops \<Rightarrow> 'f pyval \<Rightarrow> bool" where
  "truthy fo PNone = False"
| "truthy fo (PBool b) = b"
| "truthy fo (PInt i) = (i \<noteq> 0)"
| "truthy fo (PFloat x) = float_nonzero fo x"
| "truthy fo (PStr s) = (s \<noteq> [])"
| "truthy fo (PList xs) = (xs \<noteq> [])"
| "truthy fo (PDict d) = (d \<noteq> [])"

text \<open>
  Iterating a value: a list gives its elements, a string its characters, a dictionary
  its keys; anything else raises TypeError.
\<close>

fun py_iter :: "'f pyval \<Rightarrow> 'f pyval list result" where
  "py_iter (PList xs) = Return xs"
| "py_iter (PStr s) = Return (map (\<lambda>c. PStr [c]) s)"
| "py_iter (PDict d) = Return (map (\<lambda>kv. PStr (fst kv)) d)"
| "py_iter v = Raise (Exn ''TypeError'' ([CHR 0x27] @ type_name v @ [CHR 0x27] @ '' object is not iterable''))"

text \<open>\<open>x.get(key, default)\<close>: only a dictionary has the method.\<close>

fun py_get :: "'f pyval \<Rightarrow> string \<Rightarrow> 'f pyval \<Rightarrow> 'f pyval result" where
  "py_get (PDict d) k dflt = Return (dict_get_default d k dflt)"
| "py_get v k dflt =
     Raise (Exn ''AttributeError''
       ([CHR 0x27] @ type_name v @ [CHR 0x27] @ '' object has no attribute '' @ [CHR 0x27] @ ''get'' @ [CHR 0x27]))"

definition bind :: "'a result \<Rightarrow> ('a \<Rightarrow> 'b result) \<Rightarrow> 'b result" where
  "bind m f = (case m of Raise e \<Rightarrow> Raise e | Return v \<Rightarrow> f v)"

section \<open>Result verifier\<close>

record 'f verification_result =
  is_complete :: bool
  confidence :: string
  final_answer :: string
  issues_found :: "string list"
  missing_data :: "'f pyval list"
  suggestions :: "'f pyval list"
  raw_results :: "'f execution_result option"

definition NL :: string where
  "NL = [CHR 0x0A]"

text \<open>The body of the loop over \<open>enumerate(articles, start=1)\<close>.\<close>

definition render_article :: "'f float_ops \<Rightarrow> int \<Rightarrow> 'f pyval \<Rightarrow> string result" where
  "render_article fo i article =
     bind (py_get article ''title'' (PStr ''No title'')) (\<lambda>title.
     bind (py_get article ''source'' (PDict [])) (\<lambda>src.
     bind (py_get src ''name'' (PStr ''Unknown source'')) (\<lambda>source.
     bind (py_get article ''publishedAt'' (PStr ''Unknown date'')) (\<lambda>published.
     bind (py_get article ''url'' (PStr [])) (\<lambda>url.
       Return (str_int i @ ''. '' @ py_str fo title @ NL
               @ ''   Source: '' @ py_str fo source @ NL
               @ ''   Published: '' @ py_str fo published @ NL
               @ ''   Link: '' @ py_str fo url @ NL))))))"

fun render_articles ::
  "'f float_ops \<Rightarrow> int \<Rightarrow> 'f pyval list \<Rightarrow> string list \<Rightarrow> string list result" where
  "render_articles fo i [] lines = Return lines"
| "render_articles fo i (article # rest) lines =
     bind (render_article fo i article) (\<lambda>l. render_articles fo (i + 1) rest (lines @ [l]))"

definition format_final_answer :: "'f float_ops \<Rightarrow> string \<Rightarrow> 'f pyval \<Rightarrow> string result" where
  "format_final_answer fo tsk data =
     (case data of
        PDict d \<Rightarrow>
          if dict_has d ''articles'' then
            (let articles = dict_get d ''articles'' in
             if \<not> truthy fo articles then Return ''No relevant news articles were found.''
             else
               bind (py_iter articles) (\<lambda>xs.
               bind (render_articles fo 1 xs
                       [''Here are the most recent Tesla-related news articles from the last month:'' @ NL])
                 (\<lambda>lines. Return (join NL lines))))
          else if dict_has d ''temperature'' then
            Return (''Current Weather Report:'' @ NL
                    @ ''Temperature: '' @ py_str fo (dict_get d ''temperature'') @ '' ''
                        @ py_str fo (dict_get d ''units'') @ NL
                    @ ''Condition: '' @ py_str fo (dict_get d ''description'') @ NL
                    @ ''Humidity: '' @ py_str fo (dict_get d ''humidity'') @ ''%'' @ NL
                    @ ''Wind Speed: '' @ py_str fo (dict_get d ''wind_speed'') @ '' m/s'')
          else Return (py_str fo data)
      | _ \<Rightarrow> Return (py_str fo data))"

definition incomplete ::
  "string \<Rightarrow> 'f execution_result \<Rightarrow> string \<Rightarrow> 'f verification_result" where
  "incomplete reason execution_results conf =
     \<lparr>is_complete = False, confidence = conf,
      final_answer = ''Unable to fully complete the task: '' @ reason @ ''.'',
      issues_found = [reason], missing_data = [], suggestions = [],
      raw_results = Some execution_results\<rparr>"

definition verify_results ::
  "'f float_ops \<Rightarrow> string \<Rightarrow> 'f execution_result \<Rightarrow> 'f plan \<Rightarrow> 'f verification_result result" where
  "verify_results fo original_task execution_results pl =
     (if errors execution_results \<noteq> [] then
        Return (incomplete ''Execution errors occurred'' execution_results ''low'')
      else
        (case final_data execution_results of
           None \<Rightarrow> Return (incomplete ''No data returned from tools'' execution_results ''low'')
         | Some data \<Rightarrow>
             if \<not> truthy fo data then
               Return (incomplete ''No data returned from tools'' execution_results ''low'')
             else
               bind (format_final_answer fo original_task data) (\<lambda>answer.
                 Return \<lparr>is_complete = True, confidence = ''high'', final_answer = answer,
                         issues_found = [], missing_data = [], suggestions = [],
                         raw_results = None\<rparr>)))"

text \<open>\<open>s.split(sep)\<close> for a separator of one character.\<close>

fun split_on :: "char \<Rightarrow> string \<Rightarrow> string list" where
  "split_on c [] = [[]]"
| "split_on c (x # xs) =
     (if x = c then [] # split_on c xs
      else (case split_on c xs of [] \<Rightarrow> [[x]] | l # ls \<Rightarrow> (x # l) # ls))"

section \<open>Auxiliary notions for the statements\<close>

text \<open>
  An attribute is a capability when it is a method. \<open>initial_results\<close> is the record
  \<open>execute_plan\<close> starts from.
\<close>

fun is_capability :: "('f, 'w) attr option \<Rightarrow> bool" where
  "is_capability (Some (Method f)) = True"
| "is_capability _ = False"

definition initial_results :: "'f plan \<Rightarrow> 'f execution_result" where
  "initial_results pl = \<lparr>task = task_understanding pl, steps_executed = [], errors = [], raw_data = [], final_data = None\<rparr>"

text \<open>
  When the news rendering of \<open>_format_final_answer\<close> goes through: every article is a
  dictionary whose \<open>source\<close>, when present, is a dictionary; and the value under
  \<open>articles\<close>, when it is truthy, is a list of such articles.
\<close>

fun article_ok :: "'f pyval \<Rightarrow> bool" where
  "article_ok (PDict a) = (case dict_get_default a ''source'' (PDict []) of PDict _ \<Rightarrow> True | _ \<Rightarrow> False)"
| "article_ok _ = False"

definition articles_ok :: "'f float_ops \<Rightarrow> 'f pyval \<Rightarrow> bool" where
  "articles_ok fo data =
     (case data of
        PDict d \<Rightarrow>
          if dict_has d ''articles'' \<and> truthy fo (dict_get d ''articles'')
          then (case dict_get d ''articles'' of PList xs \<Rightarrow> list_all article_ok xs | _ \<Rightarrow> False)
          else True
      | _ \<Rightarrow> True)"

section \<open>Concrete inputs\<close>

text \<open>
  Floats written as their decimal text, a world that counts the calls made, and four
  capabilities over it: one that fails on the first call only, one that succeeds, one
  that raises, and one that fails and then raises.
\<close>

definition text_floats :: "string float_ops" where
  "text_floats = \<lparr>float_repr = (\<lambda>s. s), float_nonzero = (\<lambda>s. s \<noteq> ''0.0'' \<and> s \<noteq> ''-0.0'')\<rparr>"

definition flaky :: "(string, nat) capability" where
  "flaky kwargs n = (if n = 0 then Return (error_payload ''Weather API request failed: timeout'')
                     else Return (PDict [(''temperature'', PInt 21)]), Suc n)"

definition steady :: "(string, nat) capability" where
  "steady kwargs n = (Return (PDict [(''temperature'', PInt 21)]), Suc n)"

definition broken :: "(string, nat) capability" where
  "broken kwargs n = (Raise (Exn ''TypeError'' ''unexpected keyword argument''), Suc n)"

definition fail_then_raise :: "(string, nat) capability" where
  "fail_then_raise kwargs n = (if n = 0 then Return (error_payload ''Weather API request failed: timeout'')
                     else Raise (Exn ''ValueError'' ''boom''), Suc n)"

definition example_agent :: "(string, nat) ExecutorAgent" where
  "example_agent =
     ExecutorAgent_init Map.empty (WeatherTool PNone flaky steady broken)
       [''search_news'' \<mapsto> Method fail_then_raise] Map.empty"

definition example_step :: "string \<Rightarrow> string \<Rightarrow> string step" where
  "example_step t f =
     \<lparr>step_number = 1, action = ''look up'', tool = t, func = f,
      parameters = [(''city'', PStr ''Paris'')], reasoning = ''asked''\<rparr>"

definition example_plan :: "string step list \<Rightarrow> string plan" where
  "example_plan ss =
     \<lparr>task_understanding = ''Get current weather for Paris'', required_tools = [''weather''],
      steps = ss, expected_output = ''Current weather details for Paris''\<rparr>"

definition two_step_plan :: "string plan" where
  "two_step_plan = example_plan
     [example_step ''weather'' ''get_current_weather'',
      (example_step ''weather'' ''get_weather_forecast'')\<lparr>step_number := 2\<rparr>]"

definition mixed_plan :: "string plan" where
  "mixed_plan = example_plan
     [example_step ''weather'' ''get_weather_by_coordinates'',
      (example_step ''weather'' ''get_weather_forecast'')\<lparr>step_number := 2\<rparr>]"

definition two_step_result :: "string execution_result" where
  "two_step_result =
       \<lparr>task = ''Get current weather for Paris'',
        steps_executed =
          [\<lparr>sr_step_number = 1, sr_action = ''look up'', sr_tool = ''weather'',
            sr_function = ''get_current_weather'', status = ''success'',
            result = PDict [(''temperature'', PInt 21)]\<rparr>,
           \<lparr>sr_step_number = 2, sr_action = ''look up'', sr_tool = ''weather'',
            sr_function = ''get_weather_forecast'', status = ''success'',
            result = PDict [(''temperature'', PInt 21)]\<rparr>],
        errors = [],
        raw_data = [(''step_1'', PDict [(''temperature'', PInt 21)]),
                    (''step_2'', PDict [(''temperature'', PInt 21)])],
        final_data = Some (PDict [(''temperature'', PInt 21)])\<rparr>"

definition bad_articles :: "string pyval" where
  "bad_articles = PDict [(''articles'', PList [PDict [(''title'', PStr ''Model Y''), (''source'', PStr ''BBC'')]])]"

definition good_articles :: "string pyval" where
  "good_articles = PDict [(''articles'', PList [PDict [(''title'', PStr ''Model Y''), (''source'', PDict [(''name'', PStr ''BBC'')])]])]"

definition result_with :: "string pyval \<Rightarrow> string execution_result" where
  "result_with data =
     \<lparr>task = ''Find news'', steps_executed = [], errors = [],
      raw_data = [(''step_1'', data)], final_data = Some data\<rparr>"

definition paris_dict :: "string pydict" where
  "paris_dict = [(''temperature'', PInt 21), (''units'', PStr [CHR 0xB0, CHR ''C'']),
     (''description'', PStr ''clear sky''), (''humidity'', PInt 40), (''wind_speed'', PFloat ''3.1'')]"

section \<open>The step executor returns\<close>

lemma try_except_returns: "\<exists>v w'. try_except body handler w = (Return v, w')"
  by (cases "body w") (auto simp: try_except_def split: result.splits)

lemma execute_step_returns: "\<exists>v w'. execute_step self stp w = (Return v, w')"
  using try_except_returns
  by (auto simp: execute_step_def Let_def split: option.splits)

lemma execute_step_method:
  assumes "tools self (tool stp) = Some tool_obj" and "tool_obj (func stp) = Some a"
  shows "execute_step self stp w =
           try_except (call_with_retry a (parameters stp))
             (\<lambda>e. error_payload (''Execution failed: '' @ exn_str e)) w"
  using assms by (simp add: execute_step_def)

section \<open>Retry policy of the step executor\<close>

text \<open>
  C3. Once the tool and the function resolve to a capability \<open>f\<close>, \<open>execute_step\<close>
  calls it with the parameters of the step. The world that comes back tells how many
  calls were made. If the first call returns an ErrorPayload, \<open>f\<close> is called once more
  with the same parameters, in the world the first call left, and what the second call
  returns is the outcome (when the second call raises, the outcome is the
  \<open>Execution failed\<close> payload, in the world after two calls). If the first call returns
  anything else, that is the outcome after one call. If the first call raises, the
  outcome is \<open>{"error": "Execution failed: <message>"}\<close> after one call: no retry.
\<close>

theorem execute_step_retry_policy:
  assumes "tools self (tool stp) = Some tool_obj"
    and "tool_obj (func stp) = Some (Method f)"
  shows "(\<forall>r1 w1 r2 w2. f (parameters stp) w = (Return r1, w1) \<and> is_error_payload r1 \<and>
              f (parameters stp) w1 = (Return r2, w2)
            \<longrightarrow> execute_step self stp w = (Return r2, w2))
       \<and> (\<forall>r1 w1 e w2. f (parameters stp) w = (Return r1, w1) \<and> is_error_payload r1 \<and>
              f (parameters stp) w1 = (Raise e, w2)
            \<longrightarrow> execute_step self stp w =
                  (Return (error_payload (''Execution failed: '' @ exn_str e)), w2))
       \<and> (\<forall>r1 w1. f (parameters stp) w = (Return r1, w1) \<and> \<not> is_error_payload r1
            \<longrightarrow> execute_step self stp w = (Return r1, w1))
       \<and> (\<forall>e w1. f (parameters stp) w = (Raise e, w1)
            \<longrightarrow> execute_step self stp w =
                  (Return (error_payload (''Execution failed: '' @ exn_str e)), w1))"
  by (simp add: execute_step_method[OF assms] try_except_def call_with_retry_def)

theorem execute_step_retry_policy_witness:
  "execute_step example_agent (example_step ''weather'' ''get_current_weather'') 0
     = (Return (PDict [(''temperature'', PInt 21)]), 2)
   \<and> execute_step example_agent (example_step ''news'' ''search_news'') 0
     = (Return (error_payload ''Execution failed: boom''), 2)
   \<and> execute_step example_agent (example_step ''weather'' ''get_weather_forecast'') 0
     = (Return (PDict [(''temperature'', PInt 21)]), 1)
   \<and> execute_step example_agent (example_step ''weather'' ''get_weather_by_coordinates'') 0
     = (Return (error_payload ''Execution failed: unexpected keyword argument''), 1)"
proof -
  have t: "tools example_agent (tool (example_step ''weather'' f)) =
             Some (WeatherTool PNone flaky steady broken)" for f
    by (simp add: example_agent_def ExecutorAgent_init_def example_step_def)
  have tn: "tools example_agent (tool (example_step ''news'' ''search_news'')) =
              Some [''search_news'' \<mapsto> Method fail_then_raise]"
    by (simp add: example_agent_def ExecutorAgent_init_def example_step_def)
  have a1: "WeatherTool PNone flaky steady broken
              (func (example_step ''weather'' ''get_current_weather'')) = Some (Method flaky)"
    by (simp add: WeatherTool_def example_step_def)
  have a2: "WeatherTool PNone flaky steady broken
              (func (example_step ''weather'' ''get_weather_forecast'')) = Some (Method steady)"
    by (simp add: WeatherTool_def example_step_def)
  have a3: "WeatherTool PNone flaky steady broken
              (func (example_step ''weather'' ''get_weather_by_coordinates'')) = Some (Method broken)"
    by (simp add: WeatherTool_def example_step_def)
  have a4: "[''search_news'' \<mapsto> Method fail_then_raise]
              (func (example_step ''news'' ''search_news'')) = Some (Method fail_then_raise)"
    by (simp add: example_step_def)
  show ?thesis
    using execute_step_retry_policy[OF t a1, of 0]
      execute_step_retry_policy[OF tn a4, of 0]
      execute_step_retry_policy[OF t a2, of 0]
      execute_step_retry_policy[OF t a3, of 0]
    by (simp add: flaky_def steady_def broken_def fail_then_raise_def error_payload_def dict_has_def)
qed

text \<open>
  C10. If the first call returns an ErrorPayload and the retry raises an exception with
  message \<open>m\<close>, the outcome of the step is \<open>{"error": "Execution failed: <m>"}\<close>: the payload
  of the first call is dropped. And \<open>execute_step\<close> returns for every agent, step and
  world: no exception of a capability gets past it.
\<close>

theorem execute_step_retry_raises:
  assumes "tools self (tool stp) = Some tool_obj"
    and "tool_obj (func stp) = Some (Method f)"
    and "f (parameters stp) w = (Return r1, w1)"
    and "is_error_payload r1"
    and "f (parameters stp) w1 = (Raise e, w2)"
  shows "execute_step self stp w =
           (Return (error_payload (''Execution failed: '' @ exn_str e)), w2)
         \<and> is_return (fst (execute_step self' stp' w'))"
proof -
  obtain v w'' where "execute_step self' stp' w' = (Return v, w'')"
    using execute_step_returns[of self' stp' w'] by blast
  then show ?thesis
    using assms(3-5)
    by (simp add: execute_step_method[OF assms(1,2)] try_except_def call_with_retry_def)
qed

theorem execute_step_retry_raises_witness:
  "execute_step example_agent (example_step ''news'' ''search_news'') 0
     = (Return (error_payload ''Execution failed: boom''), 2)
   \<and> is_return (fst (execute_step example_agent (example_step ''weather'' ''get_weather_by_coordinates'') 0))"
proof -
  have t: "tools example_agent (tool (example_step ''news'' ''search_news'')) = Some [''search_news'' \<mapsto> Method fail_then_raise]"
    by (simp add: example_agent_def ExecutorAgent_init_def example_step_def)
  have a: "[''search_news'' \<mapsto> Method fail_then_raise] (func (example_step ''news'' ''search_news'')) = Some (Method fail_then_raise)"
    by (simp add: example_step_def)
  have c1: "fail_then_raise (parameters (example_step ''news'' ''search_news'')) 0 = (Return (error_payload ''Weather API request failed: timeout''), 1)"
    by (simp add: fail_then_raise_def)
  have c2: "is_error_payload (error_payload ''Weather API request failed: timeout'' :: string pyval)"
    by (simp add: error_payload_def dict_has_def)
  have c3: "fail_then_raise (parameters (example_step ''news'' ''search_news'')) 1 = (Raise (Exn ''ValueError'' ''boom''), 2)"
    by (simp add: fail_then_raise_def)
  show ?thesis
    using execute_step_retry_raises[OF t a c1 c2 c3, of example_agent "example_step ''weather'' ''get_weather_by_coordinates''" 0]
    by simp
qed

section \<open>Unresolved tools and functions\<close>

text \<open>
  C7, as the code has it. A step whose tool is not a key of the registry gives
  \<open>{"error": "Tool '<tool>' not found"}\<close>; a step whose tool resolves and whose function is
  not an attribute of the connector object gives
  \<open>{"error": "Function '<function>' not found in tool '<tool>'"}\<close>; a step whose function
  names a data attribute of the connector gives
  \<open>{"error": "Execution failed: '<type>' object is not callable"}\<close>. In the three cases
  the world is unchanged and the outcome does not depend on any capability: none is
  called. The registry built by \<open>__init__\<close> has no tool \<open>foo\<close>.
\<close>

theorem execute_step_unresolved:
  "(tools self (tool stp) = None \<longrightarrow>
      execute_step self stp w =
        (Return (error_payload (''Tool '' @ [CHR 0x27] @ tool stp @ [CHR 0x27] @ '' not found'')), w))
   \<and> (\<forall>tool_obj. tools self (tool stp) = Some tool_obj \<and> tool_obj (func stp) = None \<longrightarrow>
      execute_step self stp w =
        (Return (error_payload (''Function '' @ [CHR 0x27] @ func stp @ [CHR 0x27]
           @ '' not found in tool '' @ [CHR 0x27] @ tool stp @ [CHR 0x27])), w))
   \<and> (\<forall>tool_obj v. tools self (tool stp) = Some tool_obj \<and> tool_obj (func stp) = Some (Data v) \<longrightarrow>
      execute_step self stp w =
        (Return (error_payload (''Execution failed: '' @ [CHR 0x27] @ type_name v @ [CHR 0x27]
           @ '' object is not callable'')), w))
   \<and> execute_step (ExecutorAgent_init github weather news serp) (stp\<lparr>tool := ''foo''\<rparr>) w =
        (Return (error_payload (''Tool '' @ [CHR 0x27] @ ''foo'' @ [CHR 0x27] @ '' not found'')), w)"
  by (auto simp: execute_step_def ExecutorAgent_init_def try_except_def call_with_retry_def)

theorem execute_step_unresolved_witness:
  "tools example_agent (tool (example_step ''foo'' ''search'')) = None
   \<and> execute_step example_agent (example_step ''foo'' ''search'') 0 =
       (Return (error_payload (''Tool '' @ [CHR 0x27] @ ''foo'' @ [CHR 0x27] @ '' not found'')), 0)
   \<and> tools example_agent (tool (example_step ''weather'' ''get_uv_index'')) =
       Some (WeatherTool PNone flaky steady broken)
   \<and> WeatherTool PNone flaky steady broken (func (example_step ''weather'' ''get_uv_index'')) = None
   \<and> execute_step example_agent (example_step ''weather'' ''get_uv_index'') 0 =
       (Return (error_payload (''Function '' @ [CHR 0x27] @ ''get_uv_index'' @ [CHR 0x27]
           @ '' not found in tool '' @ [CHR 0x27] @ ''weather'' @ [CHR 0x27])), 0)
   \<and> WeatherTool PNone flaky steady broken (func (example_step ''weather'' ''api_key'')) =
       Some (Data PNone)
   \<and> execute_step example_agent (example_step ''weather'' ''api_key'') 0 =
       (Return (error_payload (''Execution failed: '' @ [CHR 0x27] @ ''NoneType'' @ [CHR 0x27]
           @ '' object is not callable'')), 0)"
proof -
  have a: "tools example_agent (tool (example_step ''foo'' ''search'')) = None"
    by (simp add: example_agent_def ExecutorAgent_init_def example_step_def)
  have b: "tools example_agent (tool (example_step ''weather'' f)) =
             Some (WeatherTool PNone flaky steady broken)" for f
    by (simp add: example_agent_def ExecutorAgent_init_def example_step_def)
  have c: "WeatherTool PNone flaky steady broken
             (func (example_step ''weather'' ''get_uv_index'')) = None"
    by (simp add: WeatherTool_def example_step_def)
  have d: "WeatherTool PNone flaky steady broken
             (func (example_step ''weather'' ''api_key'')) = Some (Data PNone)"
    by (simp add: WeatherTool_def example_step_def)
  show ?thesis
    using a b c d execute_step_unresolved[of example_agent "example_step ''foo'' ''search''" 0]
      execute_step_unresolved[of example_agent "example_step ''weather'' ''get_uv_index''" 0]
      execute_step_unresolved[of example_agent "example_step ''weather'' ''api_key''" 0]
    by (simp add: example_step_def)
qed

text \<open>
  C7 as stated fails: \<open>base_url\<close> is an attribute of the weather connector and not a
  capability, and the step that names it gets the \<open>Execution failed\<close> payload, not the
  \<open>Function not found\<close> one.
\<close>

theorem function_not_capability_counterexample:
  "tools example_agent (tool (example_step ''weather'' ''base_url'')) = Some (WeatherTool PNone flaky steady broken)
   \<and> \<not> is_capability (WeatherTool PNone flaky steady broken (func (example_step ''weather'' ''base_url'')))
   \<and> execute_step example_agent (example_step ''weather'' ''base_url'') 0 =
       (Return (error_payload (''Execution failed: '' @ [CHR 0x27] @ ''str'' @ [CHR 0x27] @ '' object is not callable'')), 0)
   \<and> execute_step example_agent (example_step ''weather'' ''base_url'') 0 \<noteq>
       (Return (error_payload (''Function '' @ [CHR 0x27] @ ''base_url'' @ [CHR 0x27]
           @ '' not found in tool '' @ [CHR 0x27] @ ''weather'' @ [CHR 0x27])), 0)"
  by (simp add: execute_step_def example_agent_def ExecutorAgent_init_def example_step_def
      WeatherTool_def try_except_def call_with_retry_def error_payload_def)

section \<open>The plan executor\<close>

lemma record_step_fields:
  "steps_executed (record_step stp v acc) = steps_executed acc @ [mk_record stp v]"
  "errors (record_step stp v acc) =
     errors acc @ (if is_error_payload v then [\<lparr>step = step_number stp, error = error_of v\<rparr>] else [])"
  "raw_data (record_step stp v acc) = dict_set (raw_data acc) (step_key stp) v"
  "task (record_step stp v acc) = task acc"
  "final_data (record_step stp v acc) = final_data acc"
  by (auto simp: record_step_def Let_def mk_record_def error_of_def step_key_def split: pyval.splits)

lemma map_of_dict_set: "map_of (dict_set d k v) = (map_of d)(k \<mapsto> v)"
  by (induction d k v rule: dict_set.induct) auto

lemma dict_set_nonempty: "dict_set d k v \<noteq> []"
  by (cases d) (auto split: if_splits)

lemma outcomes_length: "length (outcomes self ss w) = length ss"
proof (induction ss arbitrary: w)
  case Nil show ?case by simp
next
  case (Cons s ss)
  obtain v w1 where "execute_step self s w = (Return v, w1)"
    using execute_step_returns[of self s w] by blast
  then show ?case using Cons.IH by simp
qed

lemma run_steps_fields:
  "\<exists>r w'. run_steps self ss acc w = (Return r, w') \<and>
     steps_executed r = steps_executed acc @ map2 mk_record ss (outcomes self ss w) \<and>
     errors r = errors acc @
        map (\<lambda>(s, v). \<lparr>step = step_number s, error = error_of v\<rparr>)
          (filter (\<lambda>(s, v). is_error_payload v) (zip ss (outcomes self ss w))) \<and>
     (ss \<noteq> [] \<longrightarrow> map_of (raw_data r) (step_key (last ss)) = Some (last (outcomes self ss w))) \<and>
     (ss \<noteq> [] \<longrightarrow> raw_data r \<noteq> []) \<and> (ss = [] \<longrightarrow> raw_data r = raw_data acc) \<and>
     task r = task acc \<and> final_data r = final_data acc"
proof (induction ss arbitrary: acc w)
  case Nil show ?case by simp
next
  case (Cons s ss)
  obtain v w1 where ex: "execute_step self s w = (Return v, w1)"
    using execute_step_returns[of self s w] by blast
  obtain r w' where IH: "run_steps self ss (record_step s v acc) w1 = (Return r, w')"
     "steps_executed r = steps_executed (record_step s v acc) @ map2 mk_record ss (outcomes self ss w1)"
     "errors r = errors (record_step s v acc) @
        map (\<lambda>(s, v). \<lparr>step = step_number s, error = error_of v\<rparr>)
          (filter (\<lambda>(s, v). is_error_payload v) (zip ss (outcomes self ss w1)))"
     "ss \<noteq> [] \<longrightarrow> map_of (raw_data r) (step_key (last ss)) = Some (last (outcomes self ss w1))"
     "ss \<noteq> [] \<longrightarrow> raw_data r \<noteq> []" "ss = [] \<longrightarrow> raw_data r = raw_data (record_step s v acc)"
     "task r = task (record_step s v acc)" "final_data r = final_data (record_step s v acc)"
    using Cons.IH[of "record_step s v acc" w1] by blast
  have ne: "raw_data r \<noteq> []"
    using IH(5,6) by (cases "ss = []") (auto simp: record_step_fields dict_set_nonempty)
  have lst: "map_of (raw_data r) (step_key (last (s # ss))) = Some (last (outcomes self (s # ss) w))"
  proof (cases "ss = []")
    case True
    then show ?thesis using ex IH(6) by (simp add: record_step_fields map_of_dict_set)
  next
    case False
    then have "outcomes self ss w1 \<noteq> []" using outcomes_length[of self ss w1] by auto
    then show ?thesis using False ex IH(4) by simp
  qed
  show ?case
    using ex IH(1,2,3,7,8) ne lst
    by (simp add: record_step_fields)
qed

lemma execute_plan_fields:
  "\<exists>r w'. execute_plan self pl w = (Return r, w') \<and>
     task r = task_understanding pl \<and>
     steps_executed r = map2 mk_record (steps pl) (outcomes self (steps pl) w) \<and>
     errors r = map (\<lambda>(s, v). \<lparr>step = step_number s, error = error_of v\<rparr>)
          (filter (\<lambda>(s, v). is_error_payload v) (zip (steps pl) (outcomes self (steps pl) w))) \<and>
     (steps pl \<noteq> [] \<longrightarrow> map_of (raw_data r) (step_key (last (steps pl))) = Some (last (outcomes self (steps pl) w))) \<and>
     (steps pl \<noteq> [] \<longrightarrow> raw_data r \<noteq> []) \<and> (steps pl = [] \<longrightarrow> raw_data r = []) \<and>
     final_data r = (if errors r = [] \<and> raw_data r \<noteq> [] \<and> steps pl \<noteq> []
                     then Some (dict_get (raw_data r) (step_key (last (steps pl)))) else None)"
proof -
  obtain r w' where R: "run_steps self (steps pl) (initial_results pl) w = (Return r, w')"
     "steps_executed r = steps_executed (initial_results pl) @ map2 mk_record (steps pl) (outcomes self (steps pl) w)"
     "errors r = errors (initial_results pl) @
        map (\<lambda>(s, v). \<lparr>step = step_number s, error = error_of v\<rparr>)
          (filter (\<lambda>(s, v). is_error_payload v) (zip (steps pl) (outcomes self (steps pl) w)))"
     "steps pl \<noteq> [] \<longrightarrow> map_of (raw_data r) (step_key (last (steps pl))) = Some (last (outcomes self (steps pl) w))"
     "steps pl \<noteq> [] \<longrightarrow> raw_data r \<noteq> []" "steps pl = [] \<longrightarrow> raw_data r = raw_data (initial_results pl)"
     "task r = task (initial_results pl)" "final_data r = final_data (initial_results pl)"
    using run_steps_fields[of self "steps pl" "initial_results pl" w] by blast
  have E: "execute_plan self pl w =
     (Return (if errors r = [] \<and> raw_data r \<noteq> [] \<and> steps pl \<noteq> []
              then r\<lparr>final_data := Some (dict_get (raw_data r) (step_key (last (steps pl))))\<rparr>
              else r), w')"
    using R(1) by (simp add: execute_plan_def initial_results_def step_key_def)
  show ?thesis
    unfolding E using R(2-8)
    by (simp add: initial_results_def)
qed

lemma records_of_pairs:
  "map (\<lambda>(s, v). \<lparr>step = step_number s, error = error_of v\<rparr>)
       (filter (\<lambda>(s, v). is_error_payload v) zs) =
   map (\<lambda>rec. \<lparr>step = sr_step_number rec, error = error_of (result rec)\<rparr>)
       (filter (\<lambda>rec. status rec = ''failed'') (map (\<lambda>(s, v). mk_record s v) zs))"
  by (induction zs) (auto simp: mk_record_def)

lemma mk_record_result: "length vs = length ss \<Longrightarrow> map result (map2 mk_record ss vs) = vs"
  by (induction ss vs rule: list_induct2') (auto simp: mk_record_def)

lemma mk_record_labels:
  "length vs = length ss \<Longrightarrow>
   map (\<lambda>rec. (sr_step_number rec, sr_action rec, sr_tool rec, sr_function rec)) (map2 mk_record ss vs)
     = map (\<lambda>s. (step_number s, action s, tool s, func s)) ss"
  by (induction ss vs rule: list_induct2') (auto simp: mk_record_def)

lemma mk_record_status:
  "rec \<in> set (map2 mk_record ss vs) \<Longrightarrow>
   (status rec = ''failed'') = is_error_payload (result rec) \<and>
   (status rec = ''success'') = (\<not> is_error_payload (result rec))"
  by (auto simp: mk_record_def split: if_splits)

lemma mk_record_last:
  "length vs = length ss \<Longrightarrow> ss \<noteq> [] \<Longrightarrow> result (last (map2 mk_record ss vs)) = last vs"
  by (induction ss vs rule: list_induct2') (auto simp: mk_record_def)

lemma str_int_1: "str_int 1 = ''1''" by code_simp
lemma str_int_2: "str_int 2 = ''2''" by code_simp

lemma two_step_run:
  "execute_plan example_agent two_step_plan 0 = (Return two_step_result, 3)"
  by (simp add: execute_plan_def two_step_plan_def example_plan_def execute_step_def example_agent_def
      ExecutorAgent_init_def example_step_def WeatherTool_def try_except_def call_with_retry_def
      flaky_def steady_def broken_def error_payload_def dict_has_def record_step_def Let_def
      str_int_1 str_int_2 dict_get_def two_step_result_def)

lemma mixed_run:
  "execute_plan example_agent mixed_plan 0 =
     (Return
       \<lparr>task = ''Get current weather for Paris'',
        steps_executed =
          [\<lparr>sr_step_number = 1, sr_action = ''look up'', sr_tool = ''weather'',
            sr_function = ''get_weather_by_coordinates'', status = ''failed'',
            result = PDict [(''error'', PStr ''Execution failed: unexpected keyword argument'')]\<rparr>,
           \<lparr>sr_step_number = 2, sr_action = ''look up'', sr_tool = ''weather'',
            sr_function = ''get_weather_forecast'', status = ''success'',
            result = PDict [(''temperature'', PInt 21)]\<rparr>],
        errors = [\<lparr>step = 1, error = PStr ''Execution failed: unexpected keyword argument''\<rparr>],
        raw_data = [(''step_1'', PDict [(''error'', PStr ''Execution failed: unexpected keyword argument'')]),
                    (''step_2'', PDict [(''temperature'', PInt 21)])],
        final_data = None\<rparr>, 2)"
  by (simp add: execute_plan_def mixed_plan_def example_plan_def execute_step_def example_agent_def
      ExecutorAgent_init_def example_step_def WeatherTool_def try_except_def call_with_retry_def
      flaky_def steady_def broken_def error_payload_def dict_has_def record_step_def Let_def
      str_int_1 str_int_2 dict_get_def)

text \<open>
  C4. \<open>execute_plan\<close> returns for every plan, and runs every step in plan order whatever
  the earlier steps gave: \<open>steps_executed\<close> has one StepRecord per step, in order, with
  the labels of the step and the outcome of \<open>execute_step\<close> in the world the steps before
  left; its status is \<open>failed\<close> exactly when the outcome is a dictionary with the key
  \<open>error\<close>, and \<open>success\<close> otherwise; \<open>errors\<close> has one entry
  \<open>{step, error}\<close> for each failed record, in order, so as many entries as failed
  records.
\<close>

theorem execute_plan_runs_every_step:
  "\<exists>r w'. execute_plan self pl w = (Return r, w') \<and>
     length (steps_executed r) = length (steps pl) \<and>
     map result (steps_executed r) = outcomes self (steps pl) w \<and>
     map (\<lambda>rec. (sr_step_number rec, sr_action rec, sr_tool rec, sr_function rec)) (steps_executed r)
       = map (\<lambda>s. (step_number s, action s, tool s, func s)) (steps pl) \<and>
     (\<forall>rec \<in> set (steps_executed r).
        (status rec = ''failed'') = is_error_payload (result rec) \<and>
        (status rec = ''success'') = (\<not> is_error_payload (result rec))) \<and>
     errors r = map (\<lambda>rec. \<lparr>step = sr_step_number rec, error = error_of (result rec)\<rparr>)
                  (filter (\<lambda>rec. status rec = ''failed'') (steps_executed r)) \<and>
     length (errors r) = length (filter (\<lambda>rec. status rec = ''failed'') (steps_executed r))"
proof -
  let ?vs = "outcomes self (steps pl) w"
  obtain r w' where R: "execute_plan self pl w = (Return r, w')"
    "steps_executed r = map2 mk_record (steps pl) ?vs"
    "errors r = map (\<lambda>(s, v). \<lparr>step = step_number s, error = error_of v\<rparr>)
          (filter (\<lambda>(s, v). is_error_payload v) (zip (steps pl) ?vs))"
    using execute_plan_fields[of self pl w] by blast
  have len: "length ?vs = length (steps pl)" by (rule outcomes_length)
  have e: "errors r = map (\<lambda>rec. \<lparr>step = sr_step_number rec, error = error_of (result rec)\<rparr>)
                  (filter (\<lambda>rec. status rec = ''failed'') (steps_executed r))"
    unfolding R(2,3) by (rule records_of_pairs)
  have l: "length (errors r) = length (filter (\<lambda>rec. status rec = ''failed'') (steps_executed r))"
    by (subst e) simp
  have a: "length (steps_executed r) = length (steps pl)" unfolding R(2) using len by simp
  have b: "map result (steps_executed r) = ?vs" unfolding R(2) using len by (rule mk_record_result)
  have c: "map (\<lambda>rec. (sr_step_number rec, sr_action rec, sr_tool rec, sr_function rec)) (steps_executed r)
       = map (\<lambda>s. (step_number s, action s, tool s, func s)) (steps pl)"
    unfolding R(2) using len by (rule mk_record_labels)
  have d: "\<forall>rec \<in> set (steps_executed r).
        (status rec = ''failed'') = is_error_payload (result rec) \<and>
        (status rec = ''success'') = (\<not> is_error_payload (result rec))"
    unfolding R(2) using mk_record_status by blast
  show ?thesis using R(1) a b c d e l by blast
qed

theorem execute_plan_runs_every_step_witness:
  "\<exists>r w'. execute_plan example_agent mixed_plan 0 = (Return r, w') \<and>
     map status (steps_executed r) = [''failed'', ''success''] \<and>
     map sr_step_number (steps_executed r) = [1, 2] \<and>
     map (\<lambda>rec. is_error_payload (result rec)) (steps_executed r) = [True, False] \<and>
     errors r = [\<lparr>step = 1, error = PStr ''Execution failed: unexpected keyword argument''\<rparr>] \<and>
     length (errors r) = length (filter (\<lambda>rec. status rec = ''failed'') (steps_executed r))"
  using execute_plan_runs_every_step[of example_agent mixed_plan 0]
  by (simp add: mixed_run dict_has_def)

text \<open>
  C1. \<open>final_data\<close> is set exactly when \<open>errors\<close> is empty, \<open>raw_data\<close> is not empty
  and the plan has a step. When set, it is the entry of \<open>raw_data\<close> under the key of the
  last step, which is the outcome of the last step in plan order (also when an earlier
  step has the same number). For a plan of two steps whose outcomes are not
  ErrorPayloads, \<open>errors\<close> is empty and \<open>final_data\<close> is the entry of \<open>raw_data\<close> under
  the key of the second step.
\<close>

theorem execute_plan_final_data:
  "\<exists>r w'. execute_plan self pl w = (Return r, w') \<and>
     ((final_data r \<noteq> None) = (errors r = [] \<and> raw_data r \<noteq> [] \<and> steps pl \<noteq> [])) \<and>
     (final_data r \<noteq> None \<longrightarrow>
        final_data r = map_of (raw_data r) (step_key (last (steps pl))) \<and>
        final_data r = Some (result (last (steps_executed r))) \<and>
        final_data r = Some (last (outcomes self (steps pl) w))) \<and>
     (\<forall>s1 s2. steps pl = [s1, s2] \<and>
        (\<forall>rec \<in> set (steps_executed r). \<not> is_error_payload (result rec)) \<longrightarrow>
        errors r = [] \<and> final_data r \<noteq> None \<and>
        final_data r = map_of (raw_data r) (step_key s2))"
proof -
  let ?vs = "outcomes self (steps pl) w"
  obtain r w' where R: "execute_plan self pl w = (Return r, w')"
    "steps_executed r = map2 mk_record (steps pl) ?vs"
    "errors r = map (\<lambda>(s, v). \<lparr>step = step_number s, error = error_of v\<rparr>)
          (filter (\<lambda>(s, v). is_error_payload v) (zip (steps pl) ?vs))"
    "steps pl \<noteq> [] \<longrightarrow> map_of (raw_data r) (step_key (last (steps pl))) = Some (last ?vs)"
    "steps pl \<noteq> [] \<longrightarrow> raw_data r \<noteq> []"
    "final_data r = (if errors r = [] \<and> raw_data r \<noteq> [] \<and> steps pl \<noteq> []
                     then Some (dict_get (raw_data r) (step_key (last (steps pl)))) else None)"
    using execute_plan_fields[of self pl w] by blast
  have len: "length ?vs = length (steps pl)" by (rule outcomes_length)
  have a: "(final_data r \<noteq> None) = (errors r = [] \<and> raw_data r \<noteq> [] \<and> steps pl \<noteq> [])"
    using R(6) by simp
  have b: "final_data r = map_of (raw_data r) (step_key (last (steps pl))) \<and>
        final_data r = Some (result (last (steps_executed r))) \<and>
        final_data r = Some (last ?vs)" if "final_data r \<noteq> None"
  proof -
    from that a have ne: "steps pl \<noteq> []" and fd: "final_data r = Some (dict_get (raw_data r) (step_key (last (steps pl))))"
      using R(6) by auto
    from ne R(4) have m: "map_of (raw_data r) (step_key (last (steps pl))) = Some (last ?vs)" by simp
    have "result (last (steps_executed r)) = last ?vs"
      unfolding R(2) using len ne by (rule mk_record_last)
    then show ?thesis using fd m by (simp add: dict_get_def)
  qed
  have c: "errors r = [] \<and> final_data r \<noteq> None \<and> final_data r = map_of (raw_data r) (step_key s2)"
    if h: "steps pl = [s1, s2]" "\<forall>rec \<in> set (steps_executed r). \<not> is_error_payload (result rec)" for s1 s2
  proof -
    have "map result (steps_executed r) = ?vs" unfolding R(2) using len by (rule mk_record_result)
    then have "\<forall>v \<in> set ?vs. \<not> is_error_payload v" using h(2) by (metis (no_types, lifting) image_iff list.set_map)
    then have "filter (\<lambda>(s, v). is_error_payload v) (zip (steps pl) ?vs) = []"
      by (auto simp: filter_empty_conv dest: set_zip_rightD)
    then have e: "errors r = []" using R(3) by simp
    have ne: "steps pl \<noteq> []" using h(1) by simp
    then have f: "final_data r \<noteq> None" using a e R(5) by simp
    show ?thesis using e f b[OF f] h(1) by simp
  qed
  show ?thesis using R(1) a b c by blast
qed

theorem execute_plan_final_data_witness:
  "execute_plan example_agent two_step_plan 0 = (Return two_step_result, 3) \<and>
   errors two_step_result = [] \<and> raw_data two_step_result \<noteq> [] \<and> steps two_step_plan \<noteq> [] \<and>
   final_data two_step_result \<noteq> None \<and>
   final_data two_step_result =
     map_of (raw_data two_step_result) (step_key (last (steps two_step_plan))) \<and>
   final_data two_step_result = Some (result (last (steps_executed two_step_result))) \<and>
   steps two_step_plan =
     [example_step ''weather'' ''get_current_weather'',
      (example_step ''weather'' ''get_weather_forecast'')\<lparr>step_number := 2\<rparr>] \<and>
   map (\<lambda>rec. is_error_payload (result rec)) (steps_executed two_step_result) = [False, False] \<and>
   final_data two_step_result =
     map_of (raw_data two_step_result)
       (step_key ((example_step ''weather'' ''get_weather_forecast'')\<lparr>step_number := 2\<rparr>))"
proof -
  obtain r w' where r: "execute_plan example_agent two_step_plan 0 = (Return r, w')"
    and iff: "(final_data r \<noteq> None) = (errors r = [] \<and> raw_data r \<noteq> [] \<and> steps two_step_plan \<noteq> [])"
    and fd: "final_data r \<noteq> None \<longrightarrow>
        final_data r = map_of (raw_data r) (step_key (last (steps two_step_plan))) \<and>
        final_data r = Some (result (last (steps_executed r)))"
    and two: "\<forall>s1 s2. steps two_step_plan = [s1, s2] \<and>
        (\<forall>rec \<in> set (steps_executed r). \<not> is_error_payload (result rec)) \<longrightarrow>
        errors r = [] \<and> final_data r \<noteq> None \<and>
        final_data r = map_of (raw_data r) (step_key s2)"
    using execute_plan_final_data[of example_agent two_step_plan 0] by blast
  have eq: "r = two_step_result" using r two_step_run by simp
  have h: "errors two_step_result = []" "raw_data two_step_result \<noteq> []"
      "steps two_step_plan \<noteq> []"
    by (simp_all add: two_step_result_def two_step_plan_def example_plan_def)
  have st: "steps two_step_plan =
     [example_step ''weather'' ''get_current_weather'',
      (example_step ''weather'' ''get_weather_forecast'')\<lparr>step_number := 2\<rparr>]"
    by (simp add: two_step_plan_def example_plan_def)
  have ok: "\<forall>rec \<in> set (steps_executed two_step_result). \<not> is_error_payload (result rec)"
    by (simp add: two_step_result_def dict_has_def)
  have s2: "final_data two_step_result =
     map_of (raw_data two_step_result)
       (step_key ((example_step ''weather'' ''get_weather_forecast'')\<lparr>step_number := 2\<rparr>))"
    using two st ok unfolding eq by blast
  have ok': "map (\<lambda>rec. is_error_payload (result rec)) (steps_executed two_step_result) =
      [False, False]"
    by (simp add: two_step_result_def dict_has_def)
  show ?thesis using iff fd h st ok' s2 two_step_run unfolding eq by blast
qed

section \<open>The result verifier\<close>

text \<open>
  C5. When \<open>errors\<close> is not empty the verifier answers Incomplete, with confidence
  \<open>low\<close> and the single issue \<open>Execution errors occurred\<close>, whatever \<open>final_data\<close> is:
  the test on \<open>errors\<close> comes before the test on the data.
\<close>

theorem errors_give_incomplete:
  assumes "errors r \<noteq> []"
  shows "verify_results fo tsk r pl =
           Return \<lparr>is_complete = False, confidence = ''low'',
                   final_answer = ''Unable to fully complete the task: Execution errors occurred.'',
                   issues_found = [''Execution errors occurred''], missing_data = [],
                   suggestions = [], raw_results = Some r\<rparr>"
  using assms by (simp add: verify_results_def incomplete_def)

theorem errors_give_incomplete_witness:
  "errors ((result_with (PDict paris_dict))\<lparr>errors := [\<lparr>step = 1, error = PStr ''boom''\<rparr>]\<rparr>) \<noteq> []
   \<and> verify_results text_floats ''weather?''
        ((result_with (PDict paris_dict))\<lparr>errors := [\<lparr>step = 1, error = PStr ''boom''\<rparr>]\<rparr>) (example_plan []) =
           Return \<lparr>is_complete = False, confidence = ''low'',
                   final_answer = ''Unable to fully complete the task: Execution errors occurred.'',
                   issues_found = [''Execution errors occurred''], missing_data = [],
                   suggestions = [],
                   raw_results = Some ((result_with (PDict paris_dict))\<lparr>errors := [\<lparr>step = 1, error = PStr ''boom''\<rparr>]\<rparr>)\<rparr>"
proof -
  have e: "errors ((result_with (PDict paris_dict))\<lparr>errors := [\<lparr>step = 1, error = PStr ''boom''\<rparr>]\<rparr>) \<noteq> []"
    by simp
  show ?thesis using e errors_give_incomplete[OF e, of text_floats "''weather?''" "example_plan []"] by simp
qed

text \<open>
  C6. A plan without steps gives \<open>errors = []\<close>, \<open>raw_data = {}\<close> and no
  \<open>final_data\<close>, in an unchanged world, and the verifier answers Incomplete on that
  result, with confidence \<open>low\<close> and the single issue \<open>No data returned from tools\<close>.
\<close>

theorem empty_plan:
  assumes "steps pl = []"
  shows "\<exists>r. execute_plan self pl w = (Return r, w) \<and> errors r = [] \<and> raw_data r = [] \<and>
           final_data r = None \<and>
           (\<exists>v. verify_results fo tsk r pl = Return v \<and> is_complete v = False \<and>
                 confidence v = ''low'' \<and> issues_found v = [''No data returned from tools''])"
  using assms by (simp add: execute_plan_def verify_results_def incomplete_def)

theorem empty_plan_witness:
  "steps (example_plan []) = [] \<and>
   (\<exists>r. execute_plan example_agent (example_plan []) 0 = (Return r, 0) \<and> errors r = [] \<and>
      raw_data r = [] \<and> final_data r = None \<and>
      (\<exists>v. verify_results text_floats ''weather?'' r (example_plan []) = Return v \<and>
            is_complete v = False \<and> confidence v = ''low'' \<and>
            issues_found v = [''No data returned from tools'']))"
proof -
  have s: "steps (example_plan []) = []" by (simp add: example_plan_def)
  show ?thesis
    using s empty_plan[OF s, of example_agent 0 text_floats "''weather?''"] by simp
qed

text \<open>
  C8. With no errors and a \<open>final_data\<close> dictionary whose \<open>articles\<close> is the empty list,
  the verifier answers Complete with the text \<open>No relevant news articles were found.\<close>
\<close>

theorem no_articles:
  assumes "errors r = []" and "final_data r = Some (PDict d)"
    and "map_of d ''articles'' = Some (PList [])"
  shows "verify_results fo tsk r pl =
           Return \<lparr>is_complete = True, confidence = ''high'',
                   final_answer = ''No relevant news articles were found.'',
                   issues_found = [], missing_data = [], suggestions = [], raw_results = None\<rparr>"
proof -
  have "d \<noteq> []" using assms(3) by auto
  then show ?thesis
    using assms
    by (simp add: verify_results_def format_final_answer_def bind_def dict_has_def dict_get_def)
qed

theorem no_articles_witness:
  "errors (result_with (PDict [(''articles'', PList [])])) = []
   \<and> final_data (result_with (PDict [(''articles'', PList [])])) = Some (PDict [(''articles'', PList [])])
   \<and> map_of [(''articles'', PList [] :: string pyval)] ''articles'' = Some (PList [])
   \<and> verify_results text_floats ''news?'' (result_with (PDict [(''articles'', PList [])])) (example_plan []) =
           Return \<lparr>is_complete = True, confidence = ''high'',
                   final_answer = ''No relevant news articles were found.'',
                   issues_found = [], missing_data = [], suggestions = [], raw_results = None\<rparr>"
proof -
  have a: "errors (result_with (PDict [(''articles'', PList [])])) = []" by (simp add: result_with_def)
  have b: "final_data (result_with (PDict [(''articles'', PList [])])) = Some (PDict [(''articles'', PList [])])"
    by (simp add: result_with_def)
  have c: "map_of [(''articles'', PList [] :: string pyval)] ''articles'' = Some (PList [])" by simp
  show ?thesis using a b c no_articles[OF a b c, of text_floats "''news?''" "example_plan []"] by simp
qed

text \<open>
  C9. With no errors and a \<open>final_data\<close> dictionary that has \<open>temperature\<close> and not
  \<open>articles\<close>, the verifier answers Complete with a fixed report: the title line
  \<open>Current Weather Report:\<close> and then four lines, temperature and units, condition,
  humidity in percent, wind speed in m/s. For the data of the example, where the float
  under \<open>wind_speed\<close> is written \<open>3.1\<close> and the degree sign is the character of code
  176, the lines of the answer are the title and \<open>Temperature: 21 <degree>C\<close>,
  \<open>Condition: clear sky\<close>, \<open>Humidity: 40%\<close>, \<open>Wind Speed: 3.1 m/s\<close>.
\<close>

theorem weather_report:
  assumes "errors r = []" and "final_data r = Some (PDict d)"
    and "dict_has d ''temperature''" and "\<not> dict_has d ''articles''"
  shows "verify_results fo tsk r pl =
           Return \<lparr>is_complete = True, confidence = ''high'',
                   final_answer = join NL
                     [''Current Weather Report:'',
                      ''Temperature: '' @ py_str fo (dict_get d ''temperature'') @ '' ''
                         @ py_str fo (dict_get d ''units''),
                      ''Condition: '' @ py_str fo (dict_get d ''description''),
                      ''Humidity: '' @ py_str fo (dict_get d ''humidity'') @ ''%'',
                      ''Wind Speed: '' @ py_str fo (dict_get d ''wind_speed'') @ '' m/s''],
                   issues_found = [], missing_data = [], suggestions = [], raw_results = None\<rparr>
         \<and> (d = [(''temperature'', PInt 21), (''units'', PStr [CHR 0xB0, CHR ''C'']),
                  (''description'', PStr ''clear sky''), (''humidity'', PInt 40),
                  (''wind_speed'', PFloat x)] \<and> float_repr fo x = ''3.1'' \<longrightarrow>
            (\<exists>v. verify_results fo tsk r pl = Return v \<and>
               split_on (CHR 0x0A) (final_answer v) =
                 [''Current Weather Report:'', ''Temperature: 21 '' @ [CHR 0xB0, CHR ''C''],
                  ''Condition: clear sky'', ''Humidity: 40%'', ''Wind Speed: 3.1 m/s'']))"
proof -
  have ne: "d \<noteq> []" using assms(3) by (auto simp: dict_has_def)
  have v: "verify_results fo tsk r pl =
           Return \<lparr>is_complete = True, confidence = ''high'',
                   final_answer = join NL
                     [''Current Weather Report:'',
                      ''Temperature: '' @ py_str fo (dict_get d ''temperature'') @ '' ''
                         @ py_str fo (dict_get d ''units''),
                      ''Condition: '' @ py_str fo (dict_get d ''description''),
                      ''Humidity: '' @ py_str fo (dict_get d ''humidity'') @ ''%'',
                      ''Wind Speed: '' @ py_str fo (dict_get d ''wind_speed'') @ '' m/s''],
                   issues_found = [], missing_data = [], suggestions = [], raw_results = None\<rparr>"
    using assms ne by (simp add: verify_results_def format_final_answer_def bind_def)
  have str21: "str_int 21 = ''21''" by code_simp
  have str40: "str_int 40 = ''40''" by code_simp
  show ?thesis
    unfolding v by (auto simp: dict_get_def NL_def str21 str40)
qed

theorem weather_report_witness:
  "errors (result_with (PDict paris_dict)) = []
   \<and> final_data (result_with (PDict paris_dict)) = Some (PDict paris_dict)
   \<and> dict_has paris_dict ''temperature''
   \<and> \<not> dict_has paris_dict ''articles''
   \<and> float_repr text_floats ''3.1'' = ''3.1''
   \<and> (\<exists>v. verify_results text_floats ''weather?'' (result_with (PDict paris_dict)) (example_plan []) = Return v \<and>
          split_on (CHR 0x0A) (final_answer v) =
            [''Current Weather Report:'', ''Temperature: 21 '' @ [CHR 0xB0, CHR ''C''],
             ''Condition: clear sky'', ''Humidity: 40%'', ''Wind Speed: 3.1 m/s''])"
proof -
  have a: "errors (result_with (PDict paris_dict)) = []" by (simp add: result_with_def)
  have b: "final_data (result_with (PDict paris_dict)) = Some (PDict paris_dict)"
    by (simp add: result_with_def)
  have c: "dict_has paris_dict ''temperature''" by (simp add: dict_has_def paris_dict_def)
  have d: "\<not> dict_has paris_dict ''articles''" by (simp add: dict_has_def paris_dict_def)
  have f: "float_repr text_floats ''3.1'' = ''3.1''" by (simp add: text_floats_def)
  have p: "paris_dict = [(''temperature'', PInt 21), (''units'', PStr [CHR 0xB0, CHR ''C'']),
     (''description'', PStr ''clear sky''), (''humidity'', PInt 40), (''wind_speed'', PFloat ''3.1'')]"
    by (simp add: paris_dict_def)
  note w = weather_report[OF a b c d, of text_floats "''weather?''" "example_plan []" "''3.1''", THEN conjunct2]
  have e: "\<exists>v. verify_results text_floats ''weather?'' (result_with (PDict paris_dict)) (example_plan []) = Return v \<and>
          split_on (CHR 0x0A) (final_answer v) =
            [''Current Weather Report:'', ''Temperature: 21 '' @ [CHR 0xB0, CHR ''C''],
             ''Condition: clear sky'', ''Humidity: 40%'', ''Wind Speed: 3.1 m/s'']"
    using w p f by blast
  show ?thesis by (intro conjI a b c d f e)
qed

text \<open>
Which articles render without an exception.
\<close>

lemma is_return_bind: "is_return (bind m f) = (case m of Raise e \<Rightarrow> False | Return v \<Rightarrow> is_return (f v))"
  by (simp add: bind_def split: result.splits)

lemma py_get_returns: "is_return (py_get v k dflt) = (case v of PDict d \<Rightarrow> True | _ \<Rightarrow> False)"
  by (cases v) simp_all

lemma render_article_returns: "is_return (render_article fo i a) = article_ok a"
proof (cases a)
  case (PDict d)
  then show ?thesis
    by (cases "dict_get_default d ''source'' (PDict [])")
       (simp_all add: render_article_def bind_def)
qed (simp_all add: render_article_def bind_def)

lemma render_articles_returns:
  "is_return (render_articles fo i xs lines) = list_all article_ok xs"
proof (induction xs arbitrary: i lines)
  case Nil show ?case by simp
next
  case (Cons a xs)
  show ?case
  proof (cases "render_article fo i a")
    case (Return l)
    then have "article_ok a" using render_article_returns[of fo i a] by simp
    then show ?thesis using Return Cons.IH by (simp add: bind_def)
  next
    case (Raise e)
    then have "\<not> article_ok a" using render_article_returns[of fo i a] by simp
    then show ?thesis using Raise by (simp add: bind_def)
  qed
qed

lemma not_ok_chars: "s \<noteq> [] \<Longrightarrow> \<not> list_all article_ok (map (\<lambda>c. PStr [c]) s)"
  by (cases s) simp_all

lemma not_ok_keys: "d \<noteq> [] \<Longrightarrow> \<not> list_all article_ok (map (\<lambda>kv. PStr (fst kv)) d)"
  by (cases d) simp_all

lemma iterate_and_render_returns:
  "is_return (bind (py_iter a) (\<lambda>xs. bind (render_articles fo i xs ls) (\<lambda>lines. Return (g lines))))
     = (case py_iter a of Raise e \<Rightarrow> False | Return xs \<Rightarrow> list_all article_ok xs)"
proof (cases "py_iter a")
  case (Return xs)
  show ?thesis
    using render_articles_returns[of fo i xs ls]
    by (cases "render_articles fo i xs ls") (simp_all add: Return bind_def)
next
  case (Raise e)
  then show ?thesis by (simp add: bind_def)
qed

lemma format_final_answer_returns:
  "is_return (format_final_answer fo tsk data) = articles_ok fo data"
proof (cases data)
  case (PDict d)
  show ?thesis
  proof (cases "dict_has d ''articles'' \<and> truthy fo (dict_get d ''articles'')")
    case False
    then show ?thesis using PDict
      by (auto simp: format_final_answer_def articles_ok_def Let_def)
  next
    case True
    then have f: "format_final_answer fo tsk data =
        bind (py_iter (dict_get d ''articles'')) (\<lambda>xs.
          bind (render_articles fo 1 xs
                  [''Here are the most recent Tesla-related news articles from the last month:'' @ NL])
            (\<lambda>lines. Return (join NL lines)))"
      using PDict by (simp add: format_final_answer_def Let_def)
    have a: "articles_ok fo data =
        (case dict_get d ''articles'' of PList xs \<Rightarrow> list_all article_ok xs | _ \<Rightarrow> False)"
      using PDict True by (simp add: articles_ok_def)
    show ?thesis
      unfolding f a iterate_and_render_returns
      using True by (cases "dict_get d ''articles''") (simp_all add: not_ok_chars not_ok_keys)
  qed
qed (simp_all add: format_final_answer_def articles_ok_def)

text \<open>
  C2, as the code has it. \<open>verify_results\<close> returns a VerificationResult exactly when
  \<open>errors\<close> is not empty, or \<open>final_data\<close> is absent or falsy, or \<open>final_data\<close> is not a
  dictionary with the key \<open>articles\<close>, or the value under \<open>articles\<close> is falsy, or
  it is a list whose elements are all dictionaries with a \<open>source\<close> that is absent or a
  dictionary. In every other case it raises.
\<close>

theorem verify_results_returns_iff:
  "is_return (verify_results fo tsk r pl) =
     (errors r \<noteq> [] \<or>
      (case final_data r of None \<Rightarrow> True
       | Some data \<Rightarrow> \<not> truthy fo data \<or> articles_ok fo data))"
proof (cases "final_data r")
  case None
  then show ?thesis by (simp add: verify_results_def)
next
  case (Some data)
  show ?thesis
    using format_final_answer_returns[of fo tsk data]
    by (cases "format_final_answer fo tsk data") (simp_all add: verify_results_def Some bind_def)
qed

theorem verify_results_returns_iff_witness:
  "is_return (verify_results text_floats ''news?'' (result_with good_articles) (example_plan []))
   \<and> errors (result_with good_articles) = []
   \<and> final_data (result_with good_articles) = Some good_articles
   \<and> truthy text_floats good_articles \<and> articles_ok text_floats good_articles
   \<and> \<not> articles_ok text_floats bad_articles
   \<and> \<not> is_return (verify_results text_floats ''news?'' (result_with bad_articles) (example_plan []))"
proof -
  have g: "errors (result_with good_articles) = []" "final_data (result_with good_articles) = Some good_articles"
     "truthy text_floats good_articles" "articles_ok text_floats good_articles"
    by (simp_all add: result_with_def good_articles_def articles_ok_def dict_has_def dict_get_def dict_get_default_def)
  have b: "errors (result_with bad_articles) = []" "final_data (result_with bad_articles) = Some bad_articles"
     "truthy text_floats bad_articles" "\<not> articles_ok text_floats bad_articles"
    by (simp_all add: result_with_def bad_articles_def articles_ok_def dict_has_def dict_get_def dict_get_default_def)
  show ?thesis
    using g b verify_results_returns_iff[of text_floats "''news?''" "result_with good_articles" "example_plan []"]
      verify_results_returns_iff[of text_floats "''news?''" "result_with bad_articles" "example_plan []"]
    by simp
qed

text \<open>
  C2 as stated fails: with one article whose \<open>source\<close> is the string \<open>BBC\<close>, the
  verifier raises AttributeError.
\<close>

theorem verify_results_raises_counterexample:
  "verify_results text_floats ''news?'' (result_with bad_articles) (example_plan []) =
     Raise (Exn ''AttributeError''
       ([CHR 0x27] @ ''str'' @ [CHR 0x27] @ '' object has no attribute '' @ [CHR 0x27] @ ''get'' @ [CHR 0x27]))"
  by (simp add: verify_results_def result_with_def bad_articles_def format_final_answer_def
      dict_has_def dict_get_def dict_get_default_def bind_def render_article_def Let_def)

end
